theory Spec2Isabelle
  imports Main "HOL-Library.Char_ord" "HOL-Library.List_Lexorder"
begin

section \<open>Stale repository checker: a model of \<open>src/main.py\<close>\<close>

text \<open>
  The program walks a root directory, opens every subdirectory it meets as a git
  repository through the GitPython library, decides whether it is stale, and prints one
  block per stale directory. The model keeps the functions of \<open>main.py\<close> under their
  own names. What the program asks of the outside world is made explicit:
  \<^item> the directory tree that \<open>os.walk\<close> enumerates is a value of type \<open>tree\<close>;
  \<^item> \<open>Repo(path)\<close> is a function from paths to either a Python exception or a
    repository snapshot;
  \<^item> a Python exception is a value of \<open>py_error\<close>, and a function that can raise returns
    \<open>py_error + 'a\<close>;
  \<^item> \<open>print\<close> appends to a list of printed strings, logger calls to a list of records.
\<close>

subsection \<open>Python values, exceptions, logging\<close>

text \<open>
  Only subclasses of \<open>Exception\<close> are modelled: they are what \<open>except Exception\<close>
  catches. \<open>OSError\<close> stands for permission and other operating system errors.
\<close>

datatype py_error =
    InvalidGitRepositoryError
  | NoSuchPathError
  | OSError
  | TypeError
  | ValueError
  | IndexError
  | AttributeError
  | GitCommandError

text \<open>
  \<open>is_repo_dirty\<close> and \<open>get_repo_status\<close> contain a \<open>return 0\<close> next to returns of
  a \<open>bool\<close> and of a \<open>str\<close>, so their results are dynamically typed values.
\<close>

datatype pyval = PyBool bool | PyInt int | PyStr string

fun truthy :: "pyval \<Rightarrow> bool" where
  "truthy (PyBool b) = b"
| "truthy (PyInt i) = (i \<noteq> 0)"
| "truthy (PyStr s) = (s \<noteq> [])"

datatype level = DEBUG | INFO | WARNING | ERROR

datatype logarg = Str string | Num int | Exc py_error

text \<open>A call \<open>logger.<level>(fmt, *args)\<close>: the level, the format string, the arguments.\<close>

datatype logrec = Log (log_level: level) (log_fmt: string) (log_args: "logarg list")

subsection \<open>Strings\<close>

definition newline :: char where
  "newline = CHR 0x0A"

definition apostrophe :: char where
  "apostrophe = CHR 0x27"

text \<open>\<open>s * n\<close> on a Python string: the empty string when \<open>n \<le> 0\<close>.\<close>

definition py_str_mul :: "string \<Rightarrow> int \<Rightarrow> string" where
  "py_str_mul s n = concat (replicate (nat n) s)"

text \<open>\<open>text.replace(old, new)\<close> for a one-character \<open>old\<close>.\<close>

definition str_replace_char :: "char \<Rightarrow> string \<Rightarrow> string \<Rightarrow> string" where
  "str_replace_char old new text = concat (map (\<lambda>c. if c = old then new else [c]) text)"

text \<open>
  \<^verbatim>\<open>
  def insert_indentation(text: str, indentation: str, quantity=1) -> str:
      ident = indentation * quantity
      return ident + text.replace("\n", f"\n{ident}")
  \<close>
\<close>

definition insert_indentation :: "string \<Rightarrow> string \<Rightarrow> int \<Rightarrow> string" where
  "insert_indentation text indentation quantity =
     (let ident = py_str_mul indentation quantity
      in ident @ str_replace_char newline (newline # ident) text)"

text \<open>
  The lines of a text are what \<open>text.split("\n")\<close> returns, and \<open>"\n".join\<close> puts them
  together again. They are used to state what \<open>insert_indentation\<close> does to each line.
\<close>

fun split_lines :: "string \<Rightarrow> string list" where
  "split_lines [] = [[]]"
| "split_lines (c # cs) =
     (if c = newline then [] # split_lines cs
      else (case split_lines cs of
              [] \<Rightarrow> [[c]]
            | l # ls \<Rightarrow> (c # l) # ls))"

fun join_lines :: "string list \<Rightarrow> string" where
  "join_lines [] = []"
| "join_lines [l] = l"
| "join_lines (l # k # ls) = l @ newline # join_lines (k # ls)"

subsection \<open>Depth validation\<close>

text \<open>
  The start-up code after argument parsing:
  \<^verbatim>\<open>
  if 1 > args.depth > 99:
      logger.warning("Depth '%i' is outside of range 1-99. Defaulting to 1!", args.depth)
      args.depth = 1
  else:
      args.depth = max(min(args.depth, 99), 1) # constrain to 1-99
  \<close>
  Python reads the chained comparison \<open>1 > d > 99\<close> as \<open>1 > d and d > 99\<close>.
  The result is the list of logger calls and the new value of \<open>args.depth\<close>.
\<close>

definition validate_depth :: "int \<Rightarrow> logrec list \<times> int" where
  "validate_depth depth =
     (if 1 > depth \<and> depth > 99
      then ([Log WARNING (''Depth '' @ [apostrophe] @ ''%i'' @ [apostrophe] @
                          '' is outside of range 1-99. Defaulting to 1!'') [Num depth]], 1)
      else ([], max (min depth 99) 1))"

text \<open>\<open>str(n)\<close> for an integer, as \<open>f"{abs(diff)}"\<close> needs it.\<close>

fun str_nat :: "nat \<Rightarrow> string" where
  "str_nat n =
     (if n < 10 then [''0123456789'' ! n]
      else str_nat (n div 10) @ [''0123456789'' ! (n mod 10)])"

definition str_int :: "int \<Rightarrow> string" where
  "str_int i = (if i < 0 then CHR ''-'' # str_nat (nat (- i)) else str_nat (nat i))"

text \<open>\<open>s.strip()\<close>: white space is removed at both ends.\<close>

definition isspace :: "char \<Rightarrow> bool" where
  "isspace c = (c \<in> set [CHR 0x09, CHR 0x0A, CHR 0x0B, CHR 0x0C, CHR 0x0D,
                           CHR 0x1C, CHR 0x1D, CHR 0x1E, CHR 0x1F, CHR 0x20])"

definition strip :: "string \<Rightarrow> string" where
  "strip s = rev (dropWhile isspace (rev (dropWhile isspace s)))"

text \<open>
  \<open>os.path.join(a, b)\<close> of \<open>posixpath\<close>, for two arguments: an absolute \<open>b\<close> replaces
  \<open>a\<close>; otherwise \<open>b\<close> is appended, behind a separator unless \<open>a\<close> is empty or ends
  with one.
\<close>

definition path_join :: "string \<Rightarrow> string \<Rightarrow> string" where
  "path_join a b =
     (if b \<noteq> [] \<and> hd b = CHR ''/'' then b
      else if a = [] \<or> last a = CHR ''/'' then a @ b
      else a @ ''/'' @ b)"

subsection \<open>The repository, as GitPython shows it\<close>

text \<open>
  GitPython is not part of the program. The model keeps what the program reads from a
  \<open>Repo\<close> object:
  \<^item> a commit with its parents; \<open>commit.count()\<close> is the number of distinct commits
    reachable from it (itself included), and \<open>!=\<close> on commits compares their identity;
  \<^item> \<open>repo.active_branch\<close>, which raises \<open>TypeError\<close> when \<open>HEAD\<close> is detached;
  \<^item> \<open>repo.remotes\<close>; \<open>repo.remote()\<close>, which is the remote named \<open>origin\<close> and raises
    \<open>ValueError\<close> when there is none; \<open>remote.refs[name]\<close>, which finds the reference
    \<open><remote>/<name>\<close> and raises \<open>IndexError\<close> when there is none;
  \<^item> \<open>repo.is_dirty(index=True, working_tree=True, untracked_files=False)\<close>: false for
    a bare repository; otherwise staged changes, then changes of tracked files in the
    working tree, then (only when asked) untracked files; the program calls it with no
    argument, so with these defaults;
  \<^item> \<open>repo.index.diff(None)\<close> (the paths of tracked files changed in the working tree)
    and \<open>repo.untracked_files\<close>; both run git in the working tree and raise
    \<open>GitCommandError\<close> for a bare repository, which has none.
\<close>

datatype commit = Commit (sha: string) (parents: "commit list")

fun history :: "commit \<Rightarrow> commit list" where
  "history (Commit s ps) = Commit s ps # concat (map history ps)"

definition commit_count :: "commit \<Rightarrow> nat" where
  "commit_count c = length (remdups (history c))"

record reference =
  ref_name :: string
  ref_commit :: commit

record remote =
  remote_name :: string
  remote_refs :: "reference list"

record Repo =
  bare :: bool
  head :: "reference option"
  remotes :: "remote list"
  staged :: "string list"
  index_diff :: "string list"
  untracked_files :: "string list"

definition active_branch :: "Repo \<Rightarrow> py_error + reference" where
  "active_branch repo = (case head repo of None \<Rightarrow> Inl TypeError | Some b \<Rightarrow> Inr b)"

definition Repo_remote :: "Repo \<Rightarrow> py_error + remote" where
  "Repo_remote repo =
     (case find (\<lambda>m. remote_name m = ''origin'') (remotes repo) of
        None \<Rightarrow> Inl ValueError
      | Some m \<Rightarrow> Inr m)"

definition refs_getitem :: "remote \<Rightarrow> string \<Rightarrow> py_error + reference" where
  "refs_getitem m name =
     (case find (\<lambda>f. ref_name f = remote_name m @ ''/'' @ name) (remote_refs m) of
        None \<Rightarrow> Inl IndexError
      | Some f \<Rightarrow> Inr f)"

definition Repo_is_dirty :: "bool \<Rightarrow> bool \<Rightarrow> bool \<Rightarrow> Repo \<Rightarrow> bool" where
  "Repo_is_dirty index working_tree untracked repo =
     (\<not> bare repo
      \<and> ((index \<and> staged repo \<noteq> [])
           \<or> (working_tree \<and> index_diff repo \<noteq> [])
           \<or> (untracked \<and> untracked_files repo \<noteq> [])))"

subsection \<open>Repository queries of the program\<close>

text \<open>
  \<^verbatim>\<open>
  def get_repo_commit_diff(repo: Repo) -> int:
      local_branch = repo.active_branch
      if len(repo.remotes) == 0:
          return 0
      remote = repo.remote()
      remote_branch = remote.refs[local_branch.name]
      return local_branch.commit.count() - remote_branch.commit.count()
  \<close>
\<close>

definition get_repo_commit_diff :: "Repo \<Rightarrow> py_error + int" where
  "get_repo_commit_diff repo =
     (case active_branch repo of
        Inl e \<Rightarrow> Inl e
      | Inr local_branch \<Rightarrow>
          if length (remotes repo) = 0 then Inr 0
          else (case Repo_remote repo of
                  Inl e \<Rightarrow> Inl e
                | Inr remote \<Rightarrow>
                    (case refs_getitem remote (ref_name local_branch) of
                       Inl e \<Rightarrow> Inl e
                     | Inr remote_branch \<Rightarrow>
                         Inr (int (commit_count (ref_commit local_branch))
                              - int (commit_count (ref_commit remote_branch))))))"

text \<open>
  \<^verbatim>\<open>
  def get_repo_status(repo: Repo) -> str:
      status = ""
      diff = get_repo_commit_diff(repo)
      if diff != 0:
          adverb = "ahead" if diff > 0 else "behind"
          local_branch = repo.active_branch
          if len(repo.remotes) == 0:
              return 0
          remote = repo.remote()
          remote_branch = remote.refs[repo.active_branch.name]
          status += f"'{local_branch.name}' is {adverb} '{remote_branch.name}' by {abs(diff)} commits."
      return status
  \<close>
\<close>

definition get_repo_status :: "Repo \<Rightarrow> py_error + pyval" where
  "get_repo_status repo =
     (case get_repo_commit_diff repo of
        Inl e \<Rightarrow> Inl e
      | Inr diff \<Rightarrow>
          if diff \<noteq> 0 then
            (let adverb = (if diff > 0 then ''ahead'' else ''behind'') in
             case active_branch repo of
               Inl e \<Rightarrow> Inl e
             | Inr local_branch \<Rightarrow>
                 if length (remotes repo) = 0 then Inr (PyInt 0)
                 else (case Repo_remote repo of
                         Inl e \<Rightarrow> Inl e
                       | Inr remote \<Rightarrow>
                           (case active_branch repo of
                              Inl e \<Rightarrow> Inl e
                            | Inr b \<Rightarrow>
                                (case refs_getitem remote (ref_name b) of
                                   Inl e \<Rightarrow> Inl e
                                 | Inr remote_branch \<Rightarrow>
                                     Inr (PyStr ([apostrophe] @ ref_name local_branch @ [apostrophe]
                                            @ '' is '' @ adverb @ '' ''
                                            @ [apostrophe] @ ref_name remote_branch @ [apostrophe]
                                            @ '' by '' @ str_int (abs diff) @ '' commits.''))))))
          else Inr (PyStr []))"

text \<open>
  \<^verbatim>\<open>
  def get_repo_modified_files(repo: Repo) -> list[str]:
      modified_files = [item.a_path for item in repo.index.diff(None)]
      return modified_files

  def get_repo_untracked_files(repo: Repo) -> list[str]:
      untracked_files = repo.untracked_files
      return untracked_files
  \<close>
\<close>

definition get_repo_modified_files :: "Repo \<Rightarrow> py_error + string list" where
  "get_repo_modified_files repo =
     (if bare repo then Inl GitCommandError else Inr (index_diff repo))"

definition get_repo_untracked_files :: "Repo \<Rightarrow> py_error + string list" where
  "get_repo_untracked_files repo =
     (if bare repo then Inl GitCommandError else Inr (untracked_files repo))"

text \<open>
  \<^verbatim>\<open>
  def is_repo_dirty(repo: Repo) -> bool:
      is_dirty = repo.is_dirty()
      if not is_dirty:
          local_branch = repo.active_branch
          if len(repo.remotes) == 0:
              return 0
          remote = repo.remote()
          remote_branch = remote.refs[local_branch.name]
          is_dirty = local_branch.commit != remote_branch.commit
      return is_dirty
  \<close>
\<close>

definition is_repo_dirty :: "Repo \<Rightarrow> py_error + pyval" where
  "is_repo_dirty repo =
     (let is_dirty = Repo_is_dirty True True False repo in
      if \<not> is_dirty then
        (case active_branch repo of
           Inl e \<Rightarrow> Inl e
         | Inr local_branch \<Rightarrow>
             if length (remotes repo) = 0 then Inr (PyInt 0)
             else (case Repo_remote repo of
                     Inl e \<Rightarrow> Inl e
                   | Inr remote \<Rightarrow>
                       (case refs_getitem remote (ref_name local_branch) of
                          Inl e \<Rightarrow> Inl e
                        | Inr remote_branch \<Rightarrow>
                            Inr (PyBool (ref_commit local_branch \<noteq> ref_commit remote_branch)))))
      else Inr (PyBool is_dirty))"

subsection \<open>Checking one directory\<close>

record RepoFiles =
  modified :: "string list"
  untracked :: "string list"

record StaleResult =
  directory :: string
  stale :: pyval
  status_message :: string
  files :: RepoFiles

text \<open>\<open>StaleResult(directory, False)\<close>: the other fields take their defaults.\<close>

definition not_stale :: "string \<Rightarrow> StaleResult" where
  "not_stale d =
     \<lparr>directory = d, stale = PyBool False, status_message = [],
      files = \<lparr>modified = [], untracked = []\<rparr>\<rparr>"

text \<open>
  The body of the \<open>try\<close> statement of \<open>check_directory\<close>. \<open>git\<close> is \<open>Repo(directory)\<close>:
  the exception it raises for the path, or the repository it opens.
  \<^verbatim>\<open>
      repo = Repo(directory)
      files_list["modified"].extend(get_repo_modified_files(repo))
      files_list["untracked"].extend(get_repo_untracked_files(repo))
      is_dirty = is_repo_dirty(repo)
      if is_dirty:
          logger.info("Directory is dirty: [%s]", directory)
      return StaleResult(directory, is_dirty, "", RepoFiles(**files_list))
  \<close>
\<close>

definition check_directory_try ::
    "(string \<Rightarrow> py_error + Repo) \<Rightarrow> string \<Rightarrow> py_error + logrec list \<times> StaleResult" where
  "check_directory_try git d =
     (case git d of
        Inl e \<Rightarrow> Inl e
      | Inr repo \<Rightarrow>
          (case get_repo_modified_files repo of
             Inl e \<Rightarrow> Inl e
           | Inr modified_files \<Rightarrow>
               (case get_repo_untracked_files repo of
                  Inl e \<Rightarrow> Inl e
                | Inr untracked_files1 \<Rightarrow>
                    (let files_modified = [] @ modified_files;
                         files_untracked = [] @ untracked_files1
                     in case is_repo_dirty repo of
                          Inl e \<Rightarrow> Inl e
                        | Inr is_dirty \<Rightarrow>
                            Inr ((if truthy is_dirty
                                  then [Log INFO ''Directory is dirty: [%s]'' [Str d]] else []),
                                 \<lparr>directory = d, stale = is_dirty, status_message = [],
                                  files = \<lparr>modified = files_modified,
                                           untracked = files_untracked\<rparr>\<rparr>)))))"

text \<open>
  \<^verbatim>\<open>
  def check_directory(directory: str) -> StaleResult:
      logger.debug("Checking directory: [%s]", directory)
      files_list = {"modified": [], "untracked": []}
      try:
          ...
      except InvalidGitRepositoryError:
          logger.debug("Directory is not a git repository: [%s]", directory)
          return StaleResult(directory, False)
      except Exception as e:
          logger.error("Error checking directory: %s", e)
          return StaleResult(directory, False)
  \<close>
\<close>

definition check_directory ::
    "(string \<Rightarrow> py_error + Repo) \<Rightarrow> string \<Rightarrow> logrec list \<times> StaleResult" where
  "check_directory git d =
     (let started = Log DEBUG ''Checking directory: [%s]'' [Str d] in
      case check_directory_try git d of
        Inr (logs, result) \<Rightarrow> (started # logs, result)
      | Inl InvalidGitRepositoryError \<Rightarrow>
          ([started, Log DEBUG ''Directory is not a git repository: [%s]'' [Str d]], not_stale d)
      | Inl e \<Rightarrow>
          ([started, Log ERROR ''Error checking directory: %s'' [Exc e]], not_stale d))"


subsection \<open>Output helpers\<close>

record args =
  root :: string
  verbose :: int
  depth :: int
  list_files :: bool
  colorize :: bool
  status :: bool
  indent :: string

text \<open>The constants of \<open>colorama\<close> that the program uses: ANSI escape sequences.\<close>

definition ESC :: char where
  "ESC = CHR 0x1B"

definition Fore_GREEN :: string where "Fore_GREEN = ESC # ''[32m''"
definition Fore_LIGHTRED_EX :: string where "Fore_LIGHTRED_EX = ESC # ''[91m''"
definition Fore_LIGHTGREEN_EX :: string where "Fore_LIGHTGREEN_EX = ESC # ''[92m''"
definition Fore_LIGHTYELLOW_EX :: string where "Fore_LIGHTYELLOW_EX = ESC # ''[93m''"
definition Fore_LIGHTCYAN_EX :: string where "Fore_LIGHTCYAN_EX = ESC # ''[96m''"
definition Fore_LIGHTWHITE_EX :: string where "Fore_LIGHTWHITE_EX = ESC # ''[97m''"
definition Style_BRIGHT :: string where "Style_BRIGHT = ESC # ''[1m''"
definition Style_DIM :: string where "Style_DIM = ESC # ''[2m''"
definition Style_RESET_ALL :: string where "Style_RESET_ALL = ESC # ''[0m''"

definition COLOR_REPO :: string where "COLOR_REPO = Fore_GREEN"
definition COLOR_STATUS :: string where "COLOR_STATUS = Fore_LIGHTCYAN_EX"
definition COLOR_FILE :: string where "COLOR_FILE = Fore_LIGHTWHITE_EX"
definition COLOR_UNTRACKED :: string where "COLOR_UNTRACKED = Fore_LIGHTYELLOW_EX"
definition COLOR_MODIFIED :: string where "COLOR_MODIFIED = Fore_LIGHTRED_EX"
definition STYLE_REPO :: string where "STYLE_REPO = Style_BRIGHT"
definition STYLE_STATUS :: string where "STYLE_STATUS = Style_BRIGHT"
definition STYLE_FILE :: string where "STYLE_FILE = Style_DIM"
definition STYLE_UNTRACKED :: string where "STYLE_UNTRACKED = Style_DIM"
definition STYLE_MODIFIED :: string where "STYLE_MODIFIED = Style_DIM"

text \<open>
  Every helper returns the strings it hands to \<open>print\<close>, one per call, in order.
  \<^verbatim>\<open>
  def output_repo(args, result, diff):
      diff_sign = "+" if diff > 0 else "-"
      if args.colorize:
          color_diff = Fore.LIGHTGREEN_EX if diff > 0 else Fore.LIGHTRED_EX
          print(f"{COLOR_REPO}{STYLE_REPO}{result.directory}{Style.RESET_ALL} [{color_diff}{diff_sign}{abs(diff)}{Style.RESET_ALL}]{Style.RESET_ALL}")
      else:
          print(f"{result.directory} [{diff_sign}{abs(diff)}]")
  \<close>
\<close>

definition output_repo :: "args \<Rightarrow> StaleResult \<Rightarrow> int \<Rightarrow> string list" where
  "output_repo a result diff =
     (let diff_sign = (if diff > 0 then ''+'' else ''-'') in
      if colorize a then
        (let color_diff = (if diff > 0 then Fore_LIGHTGREEN_EX else Fore_LIGHTRED_EX) in
         [COLOR_REPO @ STYLE_REPO @ directory result @ Style_RESET_ALL @ '' ['' @ color_diff
            @ diff_sign @ str_int (abs diff) @ Style_RESET_ALL @ '']'' @ Style_RESET_ALL])
      else [directory result @ '' ['' @ diff_sign @ str_int (abs diff) @ '']''])"

text \<open>
  \<^verbatim>\<open>
  def output_status(args, status):
      if not args.status:
          return
      status = status.strip()
      if args.colorize:
          status = f"{COLOR_STATUS}{STYLE_STATUS}{status}{Style.RESET_ALL}"
      status = insert_indentation(status, args.indent)
      print(status)
  \<close>
  \<open>status\<close> is what \<open>get_repo_status\<close> returned; only a string has \<open>strip\<close>.
\<close>

definition output_status :: "args \<Rightarrow> pyval \<Rightarrow> py_error + string list" where
  "output_status a st =
     (if \<not> status a then Inr []
      else (case st of
              PyStr s \<Rightarrow>
                (let s1 = strip s;
                     s2 = (if colorize a then COLOR_STATUS @ STYLE_STATUS @ s1 @ Style_RESET_ALL
                           else s1)
                 in Inr [insert_indentation s2 (indent a) 1])
            | PyInt i \<Rightarrow> Inl AttributeError
            | PyBool b \<Rightarrow> Inl AttributeError))"

text \<open>
  \<^verbatim>\<open>
  def output_blank(args):
      if args.colorize:
          print(f"{Style.RESET_ALL}")
      else:
          print("")
  \<close>
\<close>

definition output_blank :: "args \<Rightarrow> string list" where
  "output_blank a = (if colorize a then [Style_RESET_ALL] else [[]])"

text \<open>
  The inner function of \<open>output_files\<close>:
  \<^verbatim>\<open>
  def output_files(files, color=COLOR_FILE, style=STYLE_FILE):
      text = ""
      for name in files:
          if args.colorize:
              text = f"{color}{style}{name}{Style.RESET_ALL}"
          else:
              text = name
          text = insert_indentation(text, args.indent, 2)
          print(text)
  \<close>
\<close>

definition output_file_names :: "args \<Rightarrow> string list \<Rightarrow> string \<Rightarrow> string \<Rightarrow> string list" where
  "output_file_names a names color style =
     map (\<lambda>name. insert_indentation
                    (if colorize a then color @ style @ name @ Style_RESET_ALL else name)
                    (indent a) 2) names"

text \<open>
  \<^verbatim>\<open>
  def output_files(args, files):
      if not args.status:
          return
      if args.list_files:
          if len(files.modified) == 0 and len(files.untracked) == 0:
              return
          ...
          if len(files.modified) > 0:
              print(insert_indentation("Modified:", args.indent))
              output_files(files.modified, COLOR_MODIFIED, STYLE_MODIFIED)
          if len(files.untracked) > 0:
              output_blank(args)
              print(insert_indentation("Untracked:", args.indent))
              output_files(files.untracked, COLOR_UNTRACKED, STYLE_UNTRACKED)
  \<close>
\<close>

definition output_files :: "args \<Rightarrow> RepoFiles \<Rightarrow> string list" where
  "output_files a fs =
     (if \<not> status a then []
      else if list_files a then
        (if length (modified fs) = 0 \<and> length (untracked fs) = 0 then []
         else (if length (modified fs) > 0
               then insert_indentation ''Modified:'' (indent a) 1
                    # output_file_names a (modified fs) COLOR_MODIFIED STYLE_MODIFIED
               else [])
              @ (if length (untracked fs) > 0
                 then output_blank a
                      @ insert_indentation ''Untracked:'' (indent a) 1
                      # output_file_names a (untracked fs) COLOR_UNTRACKED STYLE_UNTRACKED
                 else []))
      else [])"

subsection \<open>The directory walk\<close>

text \<open>
  A directory with its subdirectories, in the order \<open>os.walk\<close> lists them. \<open>entered\<close> is
  false for a subdirectory that \<open>os.walk\<close> lists under its parent but does not open: a
  symbolic link to a directory, or a directory it cannot read (the error is ignored).
  \<open>os.walk(top)\<close> yields top-down: a directory, then everything under its first
  subdirectory, then under the second. The model keeps \<open>subdir\<close> and \<open>dirs\<close> of each
  triple; the program does not look at \<open>files\<close>.
\<close>

datatype tree = Dir (dname: string) (entered: bool) (subdirs: "tree list")

fun walk :: "string \<Rightarrow> tree \<Rightarrow> (string \<times> string list) list" where
  "walk tp (Dir n ent subs) =
     (if ent
      then (tp, map dname subs) # concat (map (\<lambda>t. walk (path_join tp (dname t)) t) subs)
      else [])"

subsection \<open>main\<close>

text \<open>
  The inner loop of \<open>main\<close>, with the logger calls and \<open>results\<close> as state:
  \<^verbatim>\<open>
        for directory in dirs:
            full_path = os.path.join(subdir, directory)
            result = check_directory(full_path)
            results.append(result)
  \<close>
\<close>

fun check_dirs ::
    "(string \<Rightarrow> py_error + Repo) \<Rightarrow> string \<Rightarrow> string list
      \<Rightarrow> logrec list \<times> StaleResult list \<Rightarrow> logrec list \<times> StaleResult list" where
  "check_dirs git subdir [] acc = acc"
| "check_dirs git subdir (d # dirs) acc =
     (let full_path = path_join subdir d;
          r = check_directory git full_path
      in check_dirs git subdir dirs (fst acc @ fst r, snd acc @ [snd r]))"

text \<open>
  The outer loop:
  \<^verbatim>\<open>
    max_depth = args.depth
    walked_depth = 0
    results: list[StaleResult] = []
    for subdir, dirs, files in os.walk(root_directory):
        walked_depth += 1
        for directory in dirs:
            ...
        if walked_depth >= max_depth:
            break
  \<close>
\<close>

fun walk_loop ::
    "(string \<Rightarrow> py_error + Repo) \<Rightarrow> int \<Rightarrow> int \<Rightarrow> (string \<times> string list) list
      \<Rightarrow> logrec list \<times> StaleResult list \<Rightarrow> logrec list \<times> StaleResult list" where
  "walk_loop git max_depth walked_depth [] acc = acc"
| "walk_loop git max_depth walked_depth ((subdir, dirs) # rest) acc =
     (let walked_depth1 = walked_depth + 1;
          acc1 = check_dirs git subdir dirs acc
      in if walked_depth1 \<ge> max_depth then acc1
         else walk_loop git max_depth walked_depth1 rest acc1)"

text \<open>
  One turn of the printing loop, after the test of \<open>result.stale\<close>:
  \<^verbatim>\<open>
        status = get_repo_status(Repo(result.directory))
        diff = get_repo_commit_diff(Repo(result.directory))
        ...
        output_repo(args, result, diff)
        output_status(args, status)
        output_files(args, result.files)
        output_blank(args)
  \<close>
  Nothing here is inside a \<open>try\<close>. The result is what was printed and the exception that
  ended the turn, if one did.
\<close>

definition print_block ::
    "args \<Rightarrow> (string \<Rightarrow> py_error + Repo) \<Rightarrow> StaleResult \<Rightarrow> string list \<times> py_error option" where
  "print_block a git result =
     (case git (directory result) of
        Inl e \<Rightarrow> ([], Some e)
      | Inr repo1 \<Rightarrow>
          (case get_repo_status repo1 of
             Inl e \<Rightarrow> ([], Some e)
           | Inr st \<Rightarrow>
               (case git (directory result) of
                  Inl e \<Rightarrow> ([], Some e)
                | Inr repo2 \<Rightarrow>
                    (case get_repo_commit_diff repo2 of
                       Inl e \<Rightarrow> ([], Some e)
                     | Inr diff \<Rightarrow>
                         (case output_status a st of
                            Inl e \<Rightarrow> (output_repo a result diff, Some e)
                          | Inr lines \<Rightarrow>
                              (output_repo a result diff @ lines
                                 @ output_files a (files result) @ output_blank a, None))))))"

text \<open>
  \<^verbatim>\<open>
    for result in results:
        if not result.stale:
            continue
        ...
  \<close>
\<close>

fun print_results ::
    "args \<Rightarrow> (string \<Rightarrow> py_error + Repo) \<Rightarrow> StaleResult list \<Rightarrow> string list \<times> py_error option" where
  "print_results a git [] = ([], None)"
| "print_results a git (result # results) =
     (if \<not> truthy (stale result) then print_results a git results
      else (case print_block a git result of
              (out, Some e) \<Rightarrow> (out, Some e)
            | (out, None) \<Rightarrow>
                (case print_results a git results of
                   (out1, exc) \<Rightarrow> (out @ out1, exc))))"

text \<open>
  \<open>main(args)\<close>: the logger calls, what was printed, and the exception that ended the
  program, if one did. The logger calls are listed as they are made, before the logger
  drops those below its level.
  \<^verbatim>\<open>
    logger.info("Checking root directory: %s", args.root)
    result = check_directory(root_directory)
    ... the walk ...
    results = [result for result in results if result.stale]
    results.sort(key=lambda x: x[0])
    ... the printing loop ...
  \<close>
\<close>

definition scan :: "args \<Rightarrow> tree \<Rightarrow> (string \<Rightarrow> py_error + Repo) \<Rightarrow> logrec list \<times> StaleResult list" where
  "scan a fs git =
     (let root_directory = root a;
          started = [Log INFO ''Checking root directory: %s'' [Str (root a)]];
          result = check_directory git root_directory;
          max_depth = depth a
      in walk_loop git max_depth 0 (walk root_directory fs) (started @ fst result, []))"

definition main ::
    "args \<Rightarrow> tree \<Rightarrow> (string \<Rightarrow> py_error + Repo)
      \<Rightarrow> logrec list \<times> string list \<times> py_error option" where
  "main a fs git =
     (let scanned = scan a fs git;
          results1 = filter (\<lambda>result. truthy (stale result)) (snd scanned);
          results2 = sort_key directory results1
      in (fst scanned, print_results a git results2))"

text \<open>The program from its start: the depth is validated, then \<open>main\<close> runs.\<close>

definition startup ::
    "args \<Rightarrow> tree \<Rightarrow> (string \<Rightarrow> py_error + Repo)
      \<Rightarrow> logrec list \<times> string list \<times> py_error option" where
  "startup a fs git =
     (let v = validate_depth (depth a);
          m = main (a\<lparr>depth := snd v\<rparr>) fs git
      in (fst v @ fst m, snd m))"

subsection \<open>What the specification counts\<close>

text \<open>
  The subdirectories within \<open>d\<close> levels below the root, as the specification describes
  the walk: the children of the root are at level 1, their children at level 2.
\<close>

fun within_levels :: "nat \<Rightarrow> string \<Rightarrow> tree \<Rightarrow> string list" where
  "within_levels 0 tp t = []"
| "within_levels (Suc d) tp (Dir n ent subs) =
     (if ent
      then concat (map (\<lambda>t. path_join tp (dname t)
                             # within_levels d (path_join tp (dname t)) t) subs)
      else [])"

text \<open>
  Ahead and behind, as the glossary of the specification has them: the number of commits
  the local branch has that the remote branch lacks, and the other way round.
\<close>

definition ahead :: "commit \<Rightarrow> commit \<Rightarrow> nat" where
  "ahead local rem = length (filter (\<lambda>c. c \<notin> set (history rem)) (remdups (history local)))"

definition behind :: "commit \<Rightarrow> commit \<Rightarrow> nat" where
  "behind local rem = ahead rem local"


subsection \<open>Example repositories and directories\<close>

text \<open>
  A small history: \<open>c1\<close> and \<open>c2\<close> are two children of \<open>c0\<close>, and \<open>c3\<close> is a child
  of \<open>c1\<close>.
\<close>

definition commit_base :: commit where
  "commit_base = Commit ''c0'' []"

definition commit_left :: commit where
  "commit_left = Commit ''c1'' [commit_base]"

definition commit_right :: commit where
  "commit_right = Commit ''c2'' [commit_base]"

definition commit_tip :: commit where
  "commit_tip = Commit ''c3'' [commit_left]"

definition origin_main :: "commit \<Rightarrow> remote" where
  "origin_main c =
     \<lparr>remote_name = ''origin'', remote_refs = [\<lparr>ref_name = ''origin/main'', ref_commit = c\<rparr>]\<rparr>"

definition branch :: "string \<Rightarrow> commit \<Rightarrow> reference option" where
  "branch n c = Some \<lparr>ref_name = n, ref_commit = c\<rparr>"

text \<open>A clean checkout of \<open>main\<close> with one new file and no remote.\<close>

definition repo_untracked_only :: Repo where
  "repo_untracked_only =
     \<lparr>bare = False, head = branch ''main'' commit_base, remotes = [],
      staged = [], index_diff = [], untracked_files = [''notes.txt'']\<rparr>"

text \<open>The same with \<open>origin/main\<close> at the commit of \<open>main\<close>.\<close>

definition repo_untracked_synced :: Repo where
  "repo_untracked_synced =
     \<lparr>bare = False, head = branch ''main'' commit_base, remotes = [origin_main commit_base],
      staged = [], index_diff = [], untracked_files = [''notes.txt'']\<rparr>"

text \<open>A modified file on a branch \<open>feature\<close> that was never pushed to \<open>origin\<close>.\<close>

definition repo_unpushed :: Repo where
  "repo_unpushed =
     \<lparr>bare = False, head = branch ''feature'' commit_left, remotes = [origin_main commit_base],
      staged = [], index_diff = [''README.md''], untracked_files = []\<rparr>"

text \<open>A modified and a new file on \<open>main\<close>, one commit ahead of \<open>origin/main\<close>.\<close>

definition repo_modified :: Repo where
  "repo_modified =
     \<lparr>bare = False, head = branch ''main'' commit_left, remotes = [origin_main commit_base],
      staged = [], index_diff = [''a.py''], untracked_files = [''b.py'']\<rparr>"

text \<open>Clean checkouts of \<open>main\<close> at a given commit, with \<open>origin/main\<close> at another.\<close>

definition repo_clean :: "commit \<Rightarrow> commit \<Rightarrow> Repo" where
  "repo_clean local rem =
     \<lparr>bare = False, head = branch ''main'' local, remotes = [origin_main rem],
      staged = [], index_diff = [], untracked_files = []\<rparr>"

text \<open>A bare repository: no working tree.\<close>

definition repo_bare :: Repo where
  "repo_bare =
     \<lparr>bare = True, head = branch ''main'' commit_base, remotes = [origin_main commit_base],
      staged = [], index_diff = [], untracked_files = []\<rparr>"

text \<open>The directory \<open>r\<close> with \<open>r/a\<close>, \<open>r/a/a1\<close>, \<open>r/b\<close> and \<open>r/b/b1\<close>.\<close>

definition example_tree :: tree where
  "example_tree =
     Dir ''r'' True [Dir ''a'' True [Dir ''a1'' True []], Dir ''b'' True [Dir ''b1'' True []]]"

definition example_git :: "string \<Rightarrow> py_error + Repo" where
  "example_git p =
     (if p = ''r/a'' then Inr repo_unpushed
      else if p = ''r/b'' then Inr repo_modified
      else if p = ''r/a/a1'' then Inr repo_untracked_only
      else if p = ''r/b/b1'' then Inr repo_untracked_synced
      else Inl InvalidGitRepositoryError)"

definition example_args :: "int \<Rightarrow> args" where
  "example_args d =
     \<lparr>root = ''r'', verbose = 0, depth = d, list_files = True, colorize = False,
      status = True, indent = [CHR 0x09]\<rparr>"




subsection \<open>The directories the walk checks\<close>

text \<open>
  The loop of \<open>main\<close> leaves \<open>os.walk\<close> after the turn in which \<open>walked_depth\<close>
  reaches \<open>max_depth\<close>, so it takes the first \<open>max_depth - walked_depth\<close> triples of
  the walk, and the first one in any case. \<open>checked_paths\<close> lists the paths it hands to
  \<open>check_directory\<close>; \<open>scan_results\<close> below proves that the loop checks exactly these.
\<close>

definition visited ::
    "int \<Rightarrow> int \<Rightarrow> (string \<times> string list) list \<Rightarrow> (string \<times> string list) list" where
  "visited max_depth walked_depth ws = take (nat (max 1 (max_depth - walked_depth))) ws"

definition checked_paths :: "int \<Rightarrow> string \<Rightarrow> tree \<Rightarrow> string list" where
  "checked_paths max_depth r fs =
     concat (map (\<lambda>(s, ds). map (path_join s) ds) (visited max_depth 0 (walk r fs)))"

section \<open>Properties\<close>

subsection \<open>Lines\<close>

lemma split_lines_not_Nil: "split_lines s \<noteq> []"
  by (induction s) (auto split: list.splits)

lemma join_split_lines: "join_lines (split_lines s) = s"
proof (induction s)
  case Nil
  show ?case by simp
next
  case (Cons c cs)
  obtain l ls where sp: "split_lines cs = l # ls"
    using split_lines_not_Nil [of cs] by (cases "split_lines cs") auto
  show ?case
  proof (cases "c = newline")
    case True
    with Cons sp show ?thesis by simp
  next
    case False
    with Cons sp show ?thesis by (cases ls) auto
  qed
qed

lemma join_lines_Cons: "ls \<noteq> [] \<Longrightarrow> join_lines (l # ls) = l @ newline # join_lines ls"
  by (cases ls) auto

lemma indent_lines:
  "p @ str_replace_char newline (newline # p) s = join_lines (map ((@) p) (split_lines s))"
proof (induction s)
  case Nil
  show ?case by (simp add: str_replace_char_def)
next
  case (Cons c cs)
  obtain l ls where sp: "split_lines cs = l # ls"
    using split_lines_not_Nil [of cs] by (cases "split_lines cs") auto
  have tl: "str_replace_char newline (newline # p) (c # cs) =
      (if c = newline then newline # p else [c]) @ str_replace_char newline (newline # p) cs"
    by (simp add: str_replace_char_def)
  show ?case
  proof (cases "c = newline")
    case True
    have "p @ str_replace_char newline (newline # p) (c # cs) =
        p @ newline # (p @ str_replace_char newline (newline # p) cs)"
      using True tl by simp
    also have "\<dots> = p @ newline # join_lines (map ((@) p) (split_lines cs))"
      using Cons by simp
    also have "\<dots> = join_lines (map ((@) p) (split_lines (c # cs)))"
      using True sp by (simp add: join_lines_Cons)
    finally show ?thesis .
  next
    case False
    have rest: "str_replace_char newline (newline # p) cs = drop (length p) (join_lines (map ((@) p) (l # ls)))"
      using Cons sp by (metis append_eq_conv_conj)
    show ?thesis
    proof (cases ls)
      case Nil
      with False sp tl rest show ?thesis by simp
    next
      case (Cons k ks)
      with False sp tl rest show ?thesis by simp
    qed
  qed
qed

lemma split_lines_no_newline: "l \<in> set (split_lines s) \<Longrightarrow> newline \<notin> set l"
proof (induction s arbitrary: l)
  case Nil
  then show ?case by simp
next
  case (Cons c cs)
  obtain k ks where sp: "split_lines cs = k # ks"
    using split_lines_not_Nil [of cs] by (cases "split_lines cs") auto
  with Cons.IH have "newline \<notin> set k" "\<And>x. x \<in> set ks \<Longrightarrow> newline \<notin> set x"
    by auto
  with Cons.prems sp show ?case
    by (auto split: if_splits)
qed

lemma split_lines_line: "newline \<notin> set l \<Longrightarrow> split_lines l = [l]"
  by (induction l) auto

lemma split_lines_append:
  "newline \<notin> set l \<Longrightarrow> split_lines (l @ newline # s) = l # split_lines s"
  by (induction l) auto

lemma split_join_lines:
  "ls \<noteq> [] \<Longrightarrow> list_all (\<lambda>l. newline \<notin> set l) ls \<Longrightarrow> split_lines (join_lines ls) = ls"
proof (induction ls rule: join_lines.induct)
  case 1
  then show ?case by simp
next
  case (2 l)
  then show ?case by (simp add: split_lines_line)
next
  case (3 l k ls)
  then show ?case by (simp add: split_lines_append)
qed

lemma insert_indentation_split:
  assumes "newline \<notin> set (py_str_mul indentation q)"
  shows "split_lines (insert_indentation text indentation q) =
           map ((@) (py_str_mul indentation q)) (split_lines text)"
proof -
  have "list_all (\<lambda>l. newline \<notin> set l) (map ((@) (py_str_mul indentation q)) (split_lines text))"
    using assms by (auto simp: list_all_iff dest: split_lines_no_newline)
  moreover have "map ((@) (py_str_mul indentation q)) (split_lines text) \<noteq> []"
    by (simp add: split_lines_not_Nil)
  ultimately show ?thesis
    by (simp add: insert_indentation_def Let_def indent_lines split_join_lines)
qed

lemma insert_indentation_join:
  "insert_indentation text indentation q =
     join_lines (map (\<lambda>l. concat (replicate (nat q) indentation) @ l) (split_lines text))"
  by (simp add: insert_indentation_def Let_def indent_lines py_str_mul_def)

text \<open>
  C10, as amended. When the indentation string holds no newline, or \<open>q \<le> 0\<close>, the
  lines of \<open>insert_indentation text indentation q\<close> (the pieces between its newline
  characters) are the lines of the text, in the same order and number, each with the
  indentation string repeated \<open>q\<close> times put in front of it; for \<open>q \<le> 0\<close> nothing is
  put in front, as Python's \<open>str * int\<close> gives the empty string.
\<close>

theorem insert_indentation_split_lines:
  assumes "newline \<notin> set indentation \<or> q \<le> 0"
  shows "split_lines (insert_indentation text indentation q) =
           map (\<lambda>l. concat (replicate (nat q) indentation) @ l) (split_lines text)
         \<and> length (split_lines (insert_indentation text indentation q)) = length (split_lines text)"
proof -
  have "newline \<notin> set (py_str_mul indentation q)"
    using assms by (auto simp: py_str_mul_def)
  from insert_indentation_split [OF this] show ?thesis
    by (simp add: py_str_mul_def)
qed

theorem insert_indentation_split_lines_witness:
  "newline \<notin> set [CHR 0x09]
   \<and> split_lines (''a'' @ [newline] @ ''b'') = [''a'', ''b'']
   \<and> split_lines (insert_indentation (''a'' @ [newline] @ ''b'') [CHR 0x09] 2) =
        [[CHR 0x09, CHR 0x09, CHR ''a''], [CHR 0x09, CHR 0x09, CHR ''b'']]
   \<and> length (split_lines (insert_indentation (''a'' @ [newline] @ ''b'') [CHR 0x09] 2)) = 2
   \<and> split_lines (insert_indentation (''a'' @ [newline] @ ''b'') [newline] 0) = [''a'', ''b'']"
proof -
  have n: "newline \<notin> set [CHR 0x09]"
    by (simp add: newline_def)
  have l: "split_lines (''a'' @ [newline] @ ''b'') = [''a'', ''b'']"
    by (simp add: newline_def)
  from insert_indentation_split_lines [of "[CHR 0x09]" 2 "''a'' @ [newline] @ ''b''"]
    insert_indentation_split_lines [of "[newline]" 0 "''a'' @ [newline] @ ''b''"] n l
  show ?thesis by (simp add: numeral_2_eq_2)
qed

text \<open>
  C10 as stated fails for an indentation string that holds a newline: the one line
  \<open>a\<close> becomes two lines, an empty one and \<open>a\<close>.
\<close>

theorem insert_indentation_newline_indent:
  "split_lines ''a'' = [''a'']
   \<and> insert_indentation ''a'' [newline] 1 = [newline, CHR ''a'']
   \<and> split_lines (insert_indentation ''a'' [newline] 1) = [[], ''a'']
   \<and> length (split_lines (insert_indentation ''a'' [newline] 1)) = 2
   \<and> length (split_lines ''a'') = 1"
  by code_simp

subsection \<open>Depth validation\<close>

lemma validate_depth_never_warns: "fst (validate_depth d) = []"
  by (simp add: validate_depth_def)

lemma validate_depth_inside: "1 \<le> d \<Longrightarrow> d \<le> 99 \<Longrightarrow> validate_depth d = ([], d)"
  by (simp add: validate_depth_def)

lemma validate_depth_clamps: "validate_depth d = ([], if d < 1 then 1 else if d > 99 then 99 else d)"
  by (simp add: validate_depth_def)

text \<open>
  C8. Whatever integer the command line gives for the depth, the value that start-up
  leaves in \<open>args.depth\<close> lies between 1 and 99.
\<close>

theorem validate_depth_range:
  "1 \<le> snd (validate_depth d) \<and> snd (validate_depth d) \<le> 99"
  by (simp add: validate_depth_def)

text \<open>
  C2. The guard \<open>1 > depth > 99\<close> never holds, so no warning is ever logged and a depth
  above 99 becomes 99, not 1: at \<open>-d 100\<close> the program goes on with depth 99 and says
  nothing. A depth below 1 does become 1, also without a warning
  (\<open>validate_depth_clamps\<close>); a depth from 1 to 99 is kept (\<open>validate_depth_inside\<close>).
\<close>

theorem validate_depth_100:
  "validate_depth 100 = ([], 99) \<and> validate_depth 0 = ([], 1)"
  by (simp add: validate_depth_def)

subsection \<open>Checking directories\<close>

lemma check_directory_directory: "directory (snd (check_directory git d)) = d"
  by (auto simp: check_directory_def check_directory_try_def not_stale_def Let_def
      split: sum.splits py_error.splits prod.splits)

lemma check_dirs_results:
  "snd (check_dirs git s ds acc) =
     snd acc @ map (\<lambda>d. snd (check_directory git (path_join s d))) ds"
  by (induction ds arbitrary: acc) (simp_all add: Let_def)

lemma visited_Nil: "visited md w [] = []"
  by (simp add: visited_def)

lemma visited_Cons:
  "visited md w (x # ws) = (if w + 1 \<ge> md then [x] else x # visited md (w + 1) ws)"
proof (cases "w + 1 \<ge> md")
  case True
  then have "nat (max 1 (md - w)) = Suc 0" by simp
  with True show ?thesis by (simp add: visited_def)
next
  case False
  then have "nat (max 1 (md - w)) = Suc (nat (max 1 (md - (w + 1))))" by simp
  with False show ?thesis by (simp add: visited_def)
qed

lemma walk_loop_results:
  "snd (walk_loop git md w ws acc) =
     snd acc @ concat (map (\<lambda>(s, ds). map (\<lambda>d. snd (check_directory git (path_join s d))) ds)
                          (visited md w ws))"
proof (induction ws arbitrary: w acc)
  case Nil
  show ?case by (simp add: visited_Nil)
next
  case (Cons x ws)
  obtain s ds where x: "x = (s, ds)" by (cases x)
  show ?case
    by (simp add: x Let_def visited_Cons Cons.IH check_dirs_results)
qed

lemma scan_results:
  "snd (scan a fs git) =
     map (\<lambda>p. snd (check_directory git p)) (checked_paths (depth a) (root a) fs)"
  by (simp add: scan_def Let_def walk_loop_results checked_paths_def map_concat
      split_def comp_def)

lemma scan_directories:
  "map directory (snd (scan a fs git)) = checked_paths (depth a) (root a) fs"
  by (simp add: scan_results comp_def check_directory_directory)


lemma check_directory_try_fails:
  assumes "check_directory_try git d = Inl e"
  shows "snd (check_directory git d) = not_stale d"
    and "list_all (\<lambda>l. log_level l = DEBUG \<or> log_level l = ERROR) (fst (check_directory git d))"
  using assms by (auto simp: check_directory_def Let_def split: py_error.splits)

text \<open>
  What \<open>check_directory\<close> does with an exception raised inside its \<open>try\<close> statement
  (the directory is not a repository, cannot be opened, or one of its own queries on the
  repository fails): it returns \<open>StaleResult(directory, False)\<close>, not stale and with
  empty lists of modified and untracked files, every logger call it made is at debug or
  error level, the printing loop skips the result without opening the directory again,
  and the walk keeps a result for every path of \<open>checked_paths\<close>.
\<close>

lemma check_directory_failure:
  assumes "check_directory_try git d = Inl e"
  shows "snd (check_directory git d) =
           \<lparr>directory = d, stale = PyBool False, status_message = [],
            files = \<lparr>modified = [], untracked = []\<rparr>\<rparr>
         \<and> list_all (\<lambda>l. log_level l = DEBUG \<or> log_level l = ERROR) (fst (check_directory git d))
         \<and> print_results a git [snd (check_directory git d)] = ([], None)
         \<and> map directory (snd (scan a fs git)) = checked_paths (depth a) (root a) fs"
  using check_directory_try_fails [OF assms]
  by (simp add: not_stale_def scan_directories)

lemma check_directory_failure_examples:
  "check_directory_try example_git ''r/c'' = Inl InvalidGitRepositoryError
   \<and> snd (check_directory example_git ''r/c'') =
           \<lparr>directory = ''r/c'', stale = PyBool False, status_message = [],
            files = \<lparr>modified = [], untracked = []\<rparr>\<rparr>
   \<and> fst (check_directory example_git ''r/c'') =
         [Log DEBUG ''Checking directory: [%s]'' [Str ''r/c''],
          Log DEBUG ''Directory is not a git repository: [%s]'' [Str ''r/c'']]
   \<and> check_directory_try (\<lambda>p. Inr (repo_unpushed\<lparr>index_diff := []\<rparr>)) ''r/a'' = Inl IndexError
   \<and> check_directory (\<lambda>p. Inr (repo_unpushed\<lparr>index_diff := []\<rparr>)) ''r/a'' =
         ([Log DEBUG ''Checking directory: [%s]'' [Str ''r/a''],
           Log ERROR ''Error checking directory: %s'' [Exc IndexError]],
          \<lparr>directory = ''r/a'', stale = PyBool False, status_message = [],
            files = \<lparr>modified = [], untracked = []\<rparr>\<rparr>)"
proof -
  have h1: "check_directory_try example_git ''r/c'' = Inl InvalidGitRepositoryError"
    by code_simp
  have h2: "check_directory_try (\<lambda>p. Inr (repo_unpushed\<lparr>index_diff := []\<rparr>)) ''r/a'' = Inl IndexError"
    by code_simp
  have l1: "fst (check_directory example_git ''r/c'') =
         [Log DEBUG ''Checking directory: [%s]'' [Str ''r/c''],
          Log DEBUG ''Directory is not a git repository: [%s]'' [Str ''r/c'']]"
    by code_simp
  have l2: "fst (check_directory (\<lambda>p. Inr (repo_unpushed\<lparr>index_diff := []\<rparr>)) ''r/a'') =
         [Log DEBUG ''Checking directory: [%s]'' [Str ''r/a''],
           Log ERROR ''Error checking directory: %s'' [Exc IndexError]]"
    by code_simp
  from check_directory_failure [OF h1] check_directory_failure [OF h2] h1 h2 l1 l2
  show ?thesis by (simp add: prod_eq_iff)
qed

lemma check_directory_bare:
  "check_directory (\<lambda>p. Inr repo_bare) ''r/a'' =
     ([Log DEBUG ''Checking directory: [%s]'' [Str ''r/a''],
       Log ERROR ''Error checking directory: %s'' [Exc GitCommandError]],
      \<lparr>directory = ''r/a'', stale = PyBool False, status_message = [],
       files = \<lparr>modified = [], untracked = []\<rparr>\<rparr>)"
  by code_simp

text \<open>
  C5. Not every failure of a query on a repository is caught. \<open>r/a\<close> has a modified
  file on the branch \<open>feature\<close>, and \<open>origin\<close> has no reference of that name, so asking
  for the commit difference or the status raises \<open>IndexError\<close>. \<open>check_directory\<close> never
  asks: \<open>repo.is_dirty()\<close> is already true, nothing is raised inside its \<open>try\<close>, and the
  result is stale. The printing loop then asks, outside any \<open>try\<close>, and the exception
  ends \<open>main\<close>: the failure is not turned into a result that is not stale, and it does
  reach the exit code.
\<close>

theorem query_failure_ends_program:
  "example_git ''r/a'' = Inr repo_unpushed
   \<and> get_repo_commit_diff repo_unpushed = Inl IndexError
   \<and> get_repo_status repo_unpushed = Inl IndexError
   \<and> check_directory example_git ''r/a'' =
        ([Log DEBUG ''Checking directory: [%s]'' [Str ''r/a''],
          Log INFO ''Directory is dirty: [%s]'' [Str ''r/a'']],
         \<lparr>directory = ''r/a'', stale = PyBool True, status_message = [],
          files = \<lparr>modified = [''README.md''], untracked = []\<rparr>\<rparr>)
   \<and> print_block (example_args 1) example_git (snd (check_directory example_git ''r/a''))
        = ([], Some IndexError)
   \<and> snd (snd (main (example_args 1) example_tree example_git)) = Some IndexError"
  by code_simp

subsection \<open>The root directory\<close>









subsection \<open>Staleness\<close>

lemma is_repo_dirty_modified:
  "\<not> bare repo \<Longrightarrow> index_diff repo \<noteq> [] \<or> staged repo \<noteq> []
    \<Longrightarrow> is_repo_dirty repo = Inr (PyBool True)"
  by (auto simp: is_repo_dirty_def Repo_is_dirty_def)

lemma is_repo_dirty_diverged:
  assumes "get_repo_commit_diff repo = Inr n" "n \<noteq> 0"
  shows "is_repo_dirty repo = Inr (PyBool True)"
proof (cases "Repo_is_dirty True True False repo")
  case True
  then show ?thesis by (simp add: is_repo_dirty_def)
next
  case False
  from assms obtain l m rb where l: "active_branch repo = Inr l" and rem: "remotes repo \<noteq> []"
    and m: "Repo_remote repo = Inr m" and rb: "refs_getitem m (ref_name l) = Inr rb"
    and n: "n = int (commit_count (ref_commit l)) - int (commit_count (ref_commit rb))"
    by (auto simp: get_repo_commit_diff_def split: sum.splits if_splits)
  from n assms(2) have "ref_commit l \<noteq> ref_commit rb" by auto
  with False l rem m rb show ?thesis by (simp add: is_repo_dirty_def)
qed

lemma check_directory_lists:
  assumes "git d = Inr repo" "\<not> bare repo" "is_repo_dirty repo = Inr v"
  shows "snd (check_directory git d) =
           \<lparr>directory = d, stale = v, status_message = [],
            files = \<lparr>modified = index_diff repo, untracked = untracked_files repo\<rparr>\<rparr>"
  using assms
  by (simp add: check_directory_def check_directory_try_def Let_def
      get_repo_modified_files_def get_repo_untracked_files_def)

text \<open>
  C1. A repository whose only change is an untracked file is not reported as stale.
  \<open>is_repo_dirty\<close> calls \<open>repo.is_dirty()\<close> with its defaults, which leave untracked
  files out, and then compares with the remote: with no remote the result is the integer
  0, and with \<open>origin/main\<close> at the commit of \<open>main\<close> it is \<open>False\<close>. The file is in
  the untracked list of the result both times. Modified or staged files and a nonzero
  commit difference do make the result stale (\<open>is_repo_dirty_modified\<close>,
  \<open>is_repo_dirty_diverged\<close>).
\<close>

theorem check_directory_untracked_not_stale:
  "example_git ''r/a/a1'' = Inr repo_untracked_only
   \<and> untracked_files repo_untracked_only = [''notes.txt'']
   \<and> snd (check_directory example_git ''r/a/a1'') =
        \<lparr>directory = ''r/a/a1'', stale = PyInt 0, status_message = [],
         files = \<lparr>modified = [], untracked = [''notes.txt'']\<rparr>\<rparr>
   \<and> example_git ''r/b/b1'' = Inr repo_untracked_synced
   \<and> untracked_files repo_untracked_synced = [''notes.txt'']
   \<and> snd (check_directory example_git ''r/b/b1'') =
        \<lparr>directory = ''r/b/b1'', stale = PyBool False, status_message = [],
         files = \<lparr>modified = [], untracked = [''notes.txt'']\<rparr>\<rparr>"
  by code_simp

subsection \<open>The depth of the walk\<close>

lemma in_take_concat:
  "x \<in> set (take n (concat xss)) \<Longrightarrow> \<exists>xs \<in> set xss. x \<in> set (take n xs)"
proof (induction xss arbitrary: n)
  case Nil
  then show ?case by simp
next
  case (Cons xs xss)
  then consider "x \<in> set (take n xs)" | "x \<in> set (take (n - length xs) (concat xss))"
    by auto
  then show ?case
  proof cases
    case 1
    then show ?thesis by simp
  next
    case 2
    from Cons.IH [OF 2] obtain ys where ys: "ys \<in> set xss" "x \<in> set (take (n - length xs) ys)"
      by blast
    have "set (take (n - length xs) ys) \<subseteq> set (take n ys)"
      by (rule set_take_subset_set_take) simp
    with ys show ?thesis by auto
  qed
qed

lemma take_walk_within_levels:
  "(s, ds) \<in> set (take n (walk tp t)) \<Longrightarrow> d \<in> set ds
    \<Longrightarrow> path_join s d \<in> set (within_levels n tp t)"
proof (induction n arbitrary: tp t s ds)
  case 0
  then show ?case by simp
next
  case (Suc n)
  obtain nm ent subs where t: "t = Dir nm ent subs" by (cases t)
  show ?case
  proof (cases ent)
    case False
    with Suc.prems t show ?thesis by simp
  next
    case True
    from Suc.prems(1) t True
    consider "(s, ds) = (tp, map dname subs)"
      | "(s, ds) \<in> set (take n (concat (map (\<lambda>u. walk (path_join tp (dname u)) u) subs)))"
      by auto
    then show ?thesis
    proof cases
      case 1
      with Suc.prems(2) t True show ?thesis by auto
    next
      case 2
      from in_take_concat [OF 2] obtain u where u: "u \<in> set subs"
          "(s, ds) \<in> set (take n (walk (path_join tp (dname u)) u))"
        by auto
      from Suc.IH [OF u(2) Suc.prems(2)] u(1) t True show ?thesis by auto
    qed
  qed
qed

lemma checked_paths_within_levels:
  "set (checked_paths d r fs) \<subseteq> set (within_levels (nat (max 1 d)) r fs)"
  by (auto simp: checked_paths_def visited_def dest: take_walk_within_levels)

lemma checked_paths_depth_one: "checked_paths 1 r fs = within_levels 1 r fs"
  by (cases fs) (simp add: checked_paths_def visited_def comp_def)

text \<open>
  C3. \<open>walked_depth\<close> counts the directories \<open>os.walk\<close> has yielded, not levels. With
  depth 2 the loop handles \<open>r\<close> and then \<open>r/a\<close>, and stops: \<open>r/a/a1\<close> is checked and
  \<open>r/b/b1\<close>, on the same level, is not. With depth 3 the third directory is \<open>r/a/a1\<close>,
  which has no subdirectory, and \<open>r/b/b1\<close> is still not checked. What the loop checks is
  always within the depth (\<open>checked_paths_within_levels\<close>), and with depth 1 it is
  exactly the first level (\<open>checked_paths_depth_one\<close>).
\<close>

theorem walk_counts_directories_not_levels:
  "map directory (snd (scan (example_args 2) example_tree example_git)) = [''r/a'', ''r/b'', ''r/a/a1'']
   \<and> within_levels 2 ''r'' example_tree = [''r/a'', ''r/a/a1'', ''r/b'', ''r/b/b1'']
   \<and> map directory (snd (scan (example_args 3) example_tree example_git)) = [''r/a'', ''r/b'', ''r/a/a1'']"
  by code_simp

subsection \<open>Printing\<close>

lemma print_results_blocks:
  "snd (print_results a git rs) = None \<Longrightarrow>
     fst (print_results a git rs) =
       concat (map (\<lambda>r. fst (print_block a git r)) (filter (\<lambda>r. truthy (stale r)) rs))"
  by (induction rs) (auto split: prod.splits option.splits)

lemma print_block_shape:
  assumes "snd (print_block a git r) = None"
  shows "\<exists>diff body. fst (print_block a git r) = output_repo a r diff @ body @ output_blank a"
  using assms
  by (auto simp: print_block_def split: sum.splits)

lemma main_prints_sorted_blocks:
  assumes "snd (snd (main a fs git)) = None"
  shows "fst (snd (main a fs git)) =
           concat (map (\<lambda>r. fst (print_block a git r))
                       (sort_key directory (filter (\<lambda>r. truthy (stale r)) (snd (scan a fs git)))))"
    and "sorted (map directory (sort_key directory (filter (\<lambda>r. truthy (stale r)) (snd (scan a fs git)))))"
proof -
  let ?rs = "sort_key directory (filter (\<lambda>r. truthy (stale r)) (snd (scan a fs git)))"
  have m: "snd (main a fs git) = print_results a git ?rs"
    by (simp add: main_def Let_def)
  have "filter (\<lambda>r. truthy (stale r)) ?rs = ?rs"
    by (simp add: filter_sort)
  with print_results_blocks [of a git ?rs] assms m
  show "fst (snd (main a fs git)) = concat (map (\<lambda>r. fst (print_block a git r)) ?rs)"
    by simp
  show "sorted (map directory ?rs)" by simp
qed

text \<open>
  C7. The printing loop opens every stale directory again and asks for its status and
  commit difference outside any \<open>try\<close>. \<open>r/a\<close> has a modified file on a branch that
  \<open>origin\<close> does not have: \<open>check_directory\<close> finds it stale without looking at the
  remote, and \<open>remote.refs[...]\<close> raises \<open>IndexError\<close> when the loop reaches it. The
  program ends there: two results are stale and nothing is printed, not even the block
  of \<open>r/b\<close>. When no exception ends the loop, the output is one block per stale result,
  in the order of the directories, each ending with the blank line
  (\<open>main_prints_sorted_blocks\<close>, \<open>print_block_shape\<close>).
\<close>

theorem main_stops_at_unpushed_branch:
  "map directory (filter (\<lambda>r. truthy (stale r)) (snd (scan (example_args 1) example_tree example_git)))
     = [''r/a'', ''r/b'']
   \<and> snd (main (example_args 1) example_tree example_git) = ([], Some IndexError)
   \<and> snd (startup (example_args 1) example_tree example_git) = ([], Some IndexError)"
  by code_simp

subsection \<open>Ahead, behind and the remote\<close>

lemma commit_count_card: "commit_count c = card (set (history c))"
  by (simp add: commit_count_def length_remdups_card_conv)

lemma ahead_card: "ahead l r = card (set (history l) - set (history r))"
proof -
  have "ahead l r = card ({c. c \<notin> set (history r)} \<inter> set (remdups (history l)))"
    unfolding ahead_def by (rule distinct_length_filter) simp
  also have "{c. c \<notin> set (history r)} \<inter> set (remdups (history l)) = set (history l) - set (history r)"
    by auto
  finally show ?thesis .
qed

lemma commit_count_split:
  "commit_count l = ahead l r + card (set (history l) \<inter> set (history r))"
proof -
  have "card (set (history l)) =
      card (set (history l) - set (history r)) + card (set (history l) \<inter> set (history r))"
    by (metis List.finite_set card_Diff_subset_Int card_mono finite_Int inf_le1 le_add_diff_inverse2)
  then show ?thesis by (simp add: commit_count_card ahead_card)
qed

lemma commit_count_diff:
  "int (commit_count l) - int (commit_count r) = int (ahead l r) - int (behind l r)"
  using commit_count_split [of l r] commit_count_split [of r l]
  by (simp add: behind_def Int_commute)

lemma Repo_remote_remotes: "Repo_remote repo = Inr m \<Longrightarrow> remotes repo \<noteq> []"
  by (auto simp: Repo_remote_def)

text \<open>
  When \<open>HEAD\<close> is on a branch and \<open>origin\<close> has a reference of the same name, the
  difference of the two commit counts is the number of commits ahead minus the number of
  commits behind: \<open>+N\<close> for a branch that is \<open>N\<close> ahead and not behind, \<open>-N\<close> for a
  branch that is \<open>N\<close> behind and not ahead.
\<close>

lemma get_repo_commit_diff_ahead_behind:
  assumes "head repo = Some l" "Repo_remote repo = Inr m" "refs_getitem m (ref_name l) = Inr rb"
  shows "get_repo_commit_diff repo =
           Inr (int (ahead (ref_commit l) (ref_commit rb)) - int (behind (ref_commit l) (ref_commit rb)))
         \<and> (behind (ref_commit l) (ref_commit rb) = 0 \<longrightarrow>
              get_repo_commit_diff repo = Inr (int (ahead (ref_commit l) (ref_commit rb))))
         \<and> (ahead (ref_commit l) (ref_commit rb) = 0 \<longrightarrow>
              get_repo_commit_diff repo = Inr (- int (behind (ref_commit l) (ref_commit rb))))"
proof -
  have "get_repo_commit_diff repo =
      Inr (int (commit_count (ref_commit l)) - int (commit_count (ref_commit rb)))"
    using assms Repo_remote_remotes [OF assms(2)]
    by (simp add: get_repo_commit_diff_def active_branch_def)
  then show ?thesis by (simp add: commit_count_diff)
qed

lemma get_repo_commit_diff_ahead_behind_examples:
  "head (repo_clean commit_tip commit_base) = Some \<lparr>ref_name = ''main'', ref_commit = commit_tip\<rparr>
   \<and> Repo_remote (repo_clean commit_tip commit_base) = Inr (origin_main commit_base)
   \<and> refs_getitem (origin_main commit_base) ''main'' = Inr \<lparr>ref_name = ''origin/main'', ref_commit = commit_base\<rparr>
   \<and> ahead commit_tip commit_base = 2 \<and> behind commit_tip commit_base = 0
   \<and> get_repo_commit_diff (repo_clean commit_tip commit_base) = Inr 2
   \<and> head (repo_clean commit_base commit_tip) = Some \<lparr>ref_name = ''main'', ref_commit = commit_base\<rparr>
   \<and> Repo_remote (repo_clean commit_base commit_tip) = Inr (origin_main commit_tip)
   \<and> refs_getitem (origin_main commit_tip) ''main'' = Inr \<lparr>ref_name = ''origin/main'', ref_commit = commit_tip\<rparr>
   \<and> ahead commit_base commit_tip = 0 \<and> behind commit_base commit_tip = 2
   \<and> get_repo_commit_diff (repo_clean commit_base commit_tip) = Inr (- 2)"
proof -
  have h1: "head (repo_clean commit_tip commit_base) = Some \<lparr>ref_name = ''main'', ref_commit = commit_tip\<rparr>"
    by (simp add: repo_clean_def branch_def)
  have m1: "Repo_remote (repo_clean commit_tip commit_base) = Inr (origin_main commit_base)"
    by (simp add: repo_clean_def Repo_remote_def origin_main_def)
  have r1: "refs_getitem (origin_main commit_base) (ref_name \<lparr>ref_name = ''main'', ref_commit = commit_tip\<rparr>)
      = Inr \<lparr>ref_name = ''origin/main'', ref_commit = commit_base\<rparr>"
    by (simp add: refs_getitem_def origin_main_def)
  have h2: "head (repo_clean commit_base commit_tip) = Some \<lparr>ref_name = ''main'', ref_commit = commit_base\<rparr>"
    by (simp add: repo_clean_def branch_def)
  have m2: "Repo_remote (repo_clean commit_base commit_tip) = Inr (origin_main commit_tip)"
    by (simp add: repo_clean_def Repo_remote_def origin_main_def)
  have r2: "refs_getitem (origin_main commit_tip) (ref_name \<lparr>ref_name = ''main'', ref_commit = commit_base\<rparr>)
      = Inr \<lparr>ref_name = ''origin/main'', ref_commit = commit_tip\<rparr>"
    by (simp add: refs_getitem_def origin_main_def)
  have c: "ahead commit_tip commit_base = 2" "behind commit_tip commit_base = 0"
      "ahead commit_base commit_tip = 0" "behind commit_base commit_tip = 2"
    by code_simp+
  from get_repo_commit_diff_ahead_behind [OF h1 m1 r1] get_repo_commit_diff_ahead_behind [OF h2 m2 r2]
    h1 m1 r1 h2 m2 r2 c
  show ?thesis by simp
qed

text \<open>
  C4. \<open>get_repo_commit_diff\<close> subtracts the two commit counts, which is the number of
  commits ahead only for a branch that is not behind as well. \<open>main\<close> at \<open>c1\<close> is one
  commit ahead of \<open>origin/main\<close> at \<open>c2\<close> and one behind, and the function returns 0:
  neither \<open>+1\<close> nor \<open>-1\<close>, against its docstring ("the number of commits ahead or
  behind"). \<open>is_repo_dirty\<close> reports the same repository as stale, the status message is
  empty, and the block is headed \<open>[-0]\<close>.
\<close>

theorem get_repo_commit_diff_diverged:
  "ahead commit_left commit_right = 1
   \<and> behind commit_left commit_right = 1
   \<and> get_repo_commit_diff (repo_clean commit_left commit_right) = Inr 0
   \<and> is_repo_dirty (repo_clean commit_left commit_right) = Inr (PyBool True)
   \<and> get_repo_status (repo_clean commit_left commit_right) = Inr (PyStr [])
   \<and> fst (print_block (example_args 1) (\<lambda>p. Inr (repo_clean commit_left commit_right))
             (not_stale ''r/a'')) = [''r/a [-0]'', [CHR 0x09], []]"
  by code_simp

lemma get_repo_commit_diff_no_remotes:
  "remotes repo = [] \<Longrightarrow> get_repo_commit_diff repo = Inr n \<Longrightarrow> n = 0"
  by (auto simp: get_repo_commit_diff_def split: sum.splits)

lemma get_repo_status_not_int: "get_repo_status repo \<noteq> Inr (PyInt i)"
proof
  assume a: "get_repo_status repo = Inr (PyInt i)"
  then obtain n where n: "get_repo_commit_diff repo = Inr n"
    by (auto simp: get_repo_status_def split: sum.splits)
  show False
  proof (cases "remotes repo = []")
    case True
    from True n have "n = 0" by (rule get_repo_commit_diff_no_remotes)
    with a n show False by (simp add: get_repo_status_def)
  next
    case False
    with a n show False
      by (auto simp: get_repo_status_def Let_def split: sum.splits if_splits)
  qed
qed

text \<open>
  C6, as amended. \<open>get_repo_status\<close> never returns an integer: its \<open>return 0\<close> stands
  behind \<open>diff != 0\<close>, and \<open>get_repo_commit_diff\<close> has returned 0 when there is no
  remote. With no remote and \<open>HEAD\<close> on a branch it returns the empty string.
  \<open>is_repo_dirty\<close> returns an integer exactly when \<open>repo.is_dirty()\<close> is false, \<open>HEAD\<close> is
  on a branch and there is no remote, and the integer is 0.
\<close>

theorem return_zero_reachable_once:
  "get_repo_status repo \<noteq> Inr (PyInt i)
   \<and> (remotes repo = [] \<and> head repo \<noteq> None \<longrightarrow> get_repo_status repo = Inr (PyStr []))
   \<and> (is_repo_dirty repo = Inr (PyInt i))
       = (i = 0 \<and> remotes repo = [] \<and> head repo \<noteq> None \<and> \<not> Repo_is_dirty True True False repo)"
proof -
  have 2: "remotes repo = [] \<and> head repo \<noteq> None \<longrightarrow> get_repo_status repo = Inr (PyStr [])"
    by (auto simp: get_repo_status_def get_repo_commit_diff_def active_branch_def)
  have 3: "(is_repo_dirty repo = Inr (PyInt i))
       = (i = 0 \<and> remotes repo = [] \<and> head repo \<noteq> None \<and> \<not> Repo_is_dirty True True False repo)"
    by (auto simp: is_repo_dirty_def active_branch_def Let_def split: sum.splits option.splits)
  from get_repo_status_not_int 2 3 show ?thesis by blast
qed

theorem return_zero_reachable_once_witness:
  "remotes repo_untracked_only = [] \<and> head repo_untracked_only \<noteq> None
   \<and> get_repo_status repo_untracked_only = Inr (PyStr [])
   \<and> is_repo_dirty repo_untracked_only = Inr (PyInt 0)"
proof -
  have h: "remotes repo_untracked_only = []" "head repo_untracked_only \<noteq> None"
      "\<not> Repo_is_dirty True True False repo_untracked_only"
    by (simp_all add: repo_untracked_only_def branch_def Repo_is_dirty_def)
  from return_zero_reachable_once [of repo_untracked_only 0] h show ?thesis by simp
qed

text \<open>
  C6 as stated fails for \<open>get_repo_status\<close>: for a repository without remotes it
  returns the empty string, a value of its declared type.
\<close>

theorem get_repo_status_no_remote:
  "remotes repo_untracked_only = []
   \<and> get_repo_status repo_untracked_only = Inr (PyStr [])
   \<and> get_repo_status repo_untracked_only \<noteq> Inr (PyInt 0)"
  by code_simp

end
